theory Spec2Isabelle
  imports Main "HOL-Library.Word"
begin

section \<open>JavaScript strings and values\<close>

text \<open>
  A JavaScript string is a sequence of UTF-16 code units; \<open>length\<close>, \<open>substring\<close>,
  \<open>trim\<close> and a regular expression without the \<open>u\<close> flag all work on code units.
  \<open>lit\<close> turns an ASCII literal of the source into its code units.
\<close>

type_synonym jsstring = "16 word list"

definition lit :: "string \<Rightarrow> jsstring" where
  "lit s = map of_char s"

text \<open>
  A field of the object \<open>req.body\<close> after JSON parsing:
  missing (\<open>undefined\<close>), a string, or any other value (number, boolean, \<open>null\<close>,
  array, object). Of a value that is not a string the handler only ever uses its
  truthiness (\<open>!v\<close>) and its string conversion (\<open>emailRegex.test(v)\<close> converts its
  argument), so these two are what \<open>NonStr\<close> carries. An object whose conversion to a
  string itself throws is outside this type.
\<close>

datatype jsval = Undefined | Str jsstring | NonStr bool jsstring

fun truthy :: "jsval \<Rightarrow> bool" where
  "truthy Undefined = False"
| "truthy (Str s) = (s \<noteq> [])"
| "truthy (NonStr b s) = b"

fun ToString :: "jsval \<Rightarrow> jsstring" where
  "ToString Undefined = lit ''undefined''"
| "ToString (Str s) = s"
| "ToString (NonStr b s) = s"

subsection \<open>White space, \<open>trim\<close>, \<open>substring\<close>, \<open>toLowerCase\<close>\<close>

text \<open>
  ECMAScript's WhiteSpace and LineTerminator code points. \<open>String.prototype.trim\<close> strips
  exactly these from both ends, and the class \<open>\s\<close> of a regular expression is the
  same set.
\<close>

definition isWhiteSpace :: "16 word \<Rightarrow> bool" where
  "isWhiteSpace c \<longleftrightarrow>
     c = 0x9 \<or> c = 0xA \<or> c = 0xB \<or> c = 0xC \<or> c = 0xD \<or> c = 0x20 \<or> c = 0xA0 \<or>
     c = 0x1680 \<or> (0x2000 \<le> c \<and> c \<le> 0x200A) \<or> c = 0x2028 \<or> c = 0x2029 \<or>
     c = 0x202F \<or> c = 0x205F \<or> c = 0x3000 \<or> c = 0xFEFF"

definition trim :: "jsstring \<Rightarrow> jsstring" where
  "trim s = rev (dropWhile isWhiteSpace (rev (dropWhile isWhiteSpace s)))"

text \<open>\<open>s.substring(0, n)\<close>: the first \<open>n\<close> code units, all of \<open>s\<close> when it is shorter.\<close>

definition substring0 :: "nat \<Rightarrow> jsstring \<Rightarrow> jsstring" where
  "substring0 n s = take n s"

text \<open>
  \<open>String.prototype.toLowerCase\<close> follows the Unicode case tables of the JavaScript
  runtime, which are not part of the repository. On a string of ASCII code units it maps
  \<open>A\<close>..\<open>Z\<close> to \<open>a\<close>..\<open>z\<close> and leaves everything else alone; that part is
  written out. What the runtime does with a string that has a code unit beyond ASCII
  (context-dependent and length-changing mappings included) is the parameter \<open>U\<close>.
\<close>

definition isASCII :: "16 word \<Rightarrow> bool" where
  "isASCII c \<longleftrightarrow> c < 0x80"

definition asciiLower :: "16 word \<Rightarrow> 16 word" where
  "asciiLower c = (if 0x41 \<le> c \<and> c \<le> 0x5A then c + 0x20 else c)"

definition toLowerCase :: "(jsstring \<Rightarrow> jsstring) \<Rightarrow> jsstring \<Rightarrow> jsstring" where
  "toLowerCase U s = (if list_all isASCII s then map asciiLower s else U s)"

subsection \<open>The email pattern\<close>

text \<open>
  \<open>/^[^\s@]+@[^\s@]+\.[^\s@]+$/\<close> has no flags, so \<open>^\<close> and \<open>$\<close> are the ends of
  the whole input. \<open>test\<close> succeeds exactly when the input splits, at some position
  \<open>i\<close> holding \<open>@\<close> and a later position \<open>j\<close> holding a dot, into three
  non-empty runs of the class \<open>[^\s@]\<close> (the class admits the dot, so \<open>j\<close> may be any
  dot of the part after \<open>@\<close>).
\<close>

definition notSpaceAt :: "16 word \<Rightarrow> bool" where
  "notSpaceAt c \<longleftrightarrow> \<not> isWhiteSpace c \<and> c \<noteq> 0x40"

definition plusClass :: "jsstring \<Rightarrow> bool" where
  "plusClass s \<longleftrightarrow> s \<noteq> [] \<and> list_all notSpaceAt s"

definition emailRegex_test :: "jsstring \<Rightarrow> bool" where
  "emailRegex_test s \<longleftrightarrow>
     list_ex (\<lambda>i. list_ex (\<lambda>j.
         i < j \<and> s ! i = 0x40 \<and> s ! j = 0x2E \<and>
         plusClass (take i s) \<and>
         plusClass (take (j - Suc i) (drop (Suc i) s)) \<and>
         plusClass (drop (Suc j) s))
       [0..<length s]) [0..<length s]"

section \<open>The contact handler\<close>

record 'a submission =
  fullname :: 'a
  email :: 'a
  message :: 'a

text \<open>
  The object literal \<open>sanitizedData\<close>, on the three strings it is built from.
\<close>

definition sanitizedData :: "(jsstring \<Rightarrow> jsstring) \<Rightarrow> jsstring submission \<Rightarrow> jsstring submission" where
  "sanitizedData U b =
     \<lparr>fullname = substring0 100 (trim (fullname b)),
      email = substring0 100 (toLowerCase U (trim (email b))),
      message = substring0 1000 (trim (message b))\<rparr>"

text \<open>
  \<open>trim\<close> exists on strings only: on any other value \<open>v.trim\<close> is \<open>undefined\<close>
  and calling it throws a TypeError, whichever of the three fields it is. \<open>None\<close> is
  that throw.
\<close>

fun string_fields :: "jsval submission \<Rightarrow> jsstring submission option" where
  "string_fields \<lparr>fullname = Str f, email = Str e, message = Str m\<rparr> =
     Some \<lparr>fullname = f, email = e, message = m\<rparr>"
| "string_fields b = None"

section \<open>Composition\<close>

text \<open>
  \<open>process.env\<close>: a variable is unset or has a string value. Inside a template
  literal an unset variable reads \<open>undefined\<close>.
\<close>

type_synonym env = "string \<Rightarrow> jsstring option"

definition envText :: "env \<Rightarrow> string \<Rightarrow> jsstring" where
  "envText env k = (case env k of None \<Rightarrow> lit ''undefined'' | Some v \<Rightarrow> v)"

text \<open>
  The two \<open>new Date()\<close> readings of the handler, as the strings that
  \<open>toLocaleDateString('en-US', ...)\<close> (HTML body) and \<open>toLocaleString()\<close> (text body)
  render them to.
\<close>

record clock =
  htmlDate :: jsstring
  textDate :: jsstring

text \<open>\<open>s.split(' ')[0]\<close>: the part of \<open>s\<close> before its first space (U+0020).\<close>

definition split_space_first :: "jsstring \<Rightarrow> jsstring" where
  "split_space_first s = takeWhile (\<lambda>c. c \<noteq> 0x20) s"

record mailOptions =
  mail_from :: jsstring
  mail_to :: "jsstring option"
  mail_subject :: jsstring
  mail_html :: jsstring
  mail_text :: jsstring

definition html_body :: "env \<Rightarrow> clock \<Rightarrow> jsstring submission \<Rightarrow> jsstring" where
  \<open>html_body env clk sd =
     lit ''
        <!DOCTYPE html>
        <html lang="en">
        <head>
          <meta charset="UTF-8">
          <meta name="viewport" content="width=device-width, initial-scale=1.0">
          <title>New Contact Form Submission</title>
        </head>
        <body style="margin: 0; padding: 0; background-color: #f7fafc; font-family: -apple-system, BlinkMacSystemFont, 'Segoe UI', Roboto, 'Helvetica Neue', Arial, sans-serif; line-height: 1.6;">
          <div style="max-width: 600px; margin: 32px auto; background-color: #ffffff; border-radius: 16px; box-shadow: 0 10px 40px rgba(0, 0, 0, 0.06), 0 2px 8px rgba(0, 0, 0, 0.04); overflow: hidden; border: 1px solid #e2e8f0;">

            <!-- Header -->
            <div style="background: linear-gradient(135deg, #ffdb70 0%, #ffd93d 100%); padding: 40px; text-align: center; border-left: 6px solid #f59e0b; position: relative;">
              <h1 style="margin: 0; color: #1a202c; font-size: 28px; font-weight: 700; letter-spacing: -0.8px; line-height: 1.2;">
                New Contact
              </h1>
              <p style="margin: 12px 0 0 0; color: #2d3748; font-size: 15px; font-weight: 500; opacity: 0.8;">
                '' @
     envText env ''SITE_NAME'' @
     lit ''
              </p>
            </div>

            <!-- Content -->
            <div style="padding: 40px;">

              <!-- Contact Info Card -->
              <div style="background: linear-gradient(135deg, #fffbf0 0%, #fef7e0 100%); border: 1px solid #fed7aa; border-radius: 16px; padding: 32px; margin-bottom: 32px; border-left: 5px solid #ffdb70; box-shadow: 0 2px 8px rgba(255, 219, 112, 0.1);">
                <table cellpadding="0" cellspacing="0" border="0" style="width: 100%;">
                  <tr>
                    <td style="text-align: left; vertical-align: top;">
                      <h2 style="margin: 0 0 12px 0; color: #1a202c; font-size: 24px; font-weight: 700; font-family: -apple-system, BlinkMacSystemFont, 'Segoe UI', Arial, sans-serif; line-height: 1.2; letter-spacing: -0.5px;">
                        '' @
     fullname sd @
     lit ''
                      </h2>
                      <div style="background-color: #ffffff; border: 1px solid #e2e8f0; border-radius: 8px; padding: 12px 16px; display: inline-block; box-shadow: 0 1px 3px rgba(0, 0, 0, 0.05);">
                        <table cellpadding="0" cellspacing="0" border="0">
                          <tr>
                            <td style="vertical-align: middle; padding-right: 8px;">
                              <div style="width: 16px; height: 16px; background-color: #ffdb70; border-radius: 3px; display: inline-block; text-align: center; line-height: 16px;">
                                <span style="font-size: 10px; color: #1a202c; font-weight: 600;">@</span>
                              </div>
                            </td>
                            <td style="vertical-align: middle;">
                              <a href="mailto:'' @
     email sd @
     lit ''" style="color: #3182ce; text-decoration: none; font-size: 15px; font-weight: 500; font-family: -apple-system, BlinkMacSystemFont, 'Segoe UI', Arial, sans-serif;">
                                '' @
     email sd @
     lit ''
                              </a>
                            </td>
                          </tr>
                        </table>
                      </div>
                    </td>
                  </tr>
                </table>
              </div>

              <!-- Message Content -->
              <div style="margin-bottom: 36px;">
                <div style="margin-bottom: 16px;">
                  <h3 style="margin: 0; color: #1a202c; font-size: 18px; font-weight: 600; font-family: -apple-system, BlinkMacSystemFont, 'Segoe UI', Arial, sans-serif; letter-spacing: -0.3px;">
                    Message
                  </h3>
                </div>
                <div style="background-color: #f8fafc; border: 1px solid #e2e8f0; border-radius: 12px; padding: 28px; position: relative;">
                  <div style="position: absolute; top: 0; left: 0; width: 4px; height: 100%; background: linear-gradient(180deg, #ffdb70 0%, #ffd93d 100%); border-radius: 2px 0 0 2px;"></div>
                  <p style="margin: 0; color: #2d3748; font-size: 16px; line-height: 1.7; font-family: -apple-system, BlinkMacSystemFont, 'Segoe UI', 'Roboto', 'Helvetica Neue', Arial, sans-serif; letter-spacing: 0.01em; word-wrap: break-word; white-space: pre-wrap; font-weight: 400;">
                    '' @
     message sd @
     lit ''
                  </p>
                </div>
              </div>

              <!-- Quick Actions -->
              <div style="text-align: center; margin-bottom: 32px;">
                <a href="mailto:'' @
     email sd @
     lit ''?subject=Re: Your message to '' @
     envText env ''SITE_NAME'' @
     lit ''"
                   style="display: inline-block; background: linear-gradient(135deg, #ffdb70 0%, #ffd93d 100%); color: #1a202c; text-decoration: none; padding: 14px 28px; border-radius: 8px; font-weight: 600; font-size: 15px; font-family: -apple-system, BlinkMacSystemFont, 'Segoe UI', Arial, sans-serif; box-shadow: 0 4px 12px rgba(255, 219, 112, 0.3); border: 1px solid #fed7aa;">
                  Reply to '' @
     split_space_first (fullname sd) @
     lit ''
                </a>
              </div>

            </div>

            <!-- Footer -->
            <div style="background: linear-gradient(135deg, #f8fafc 0%, #f1f5f9 100%); padding: 24px 40px; border-top: 1px solid #e2e8f0;">
              <div style="text-align: center;">
                <div style="display: inline-block; background-color: #ffffff; border: 1px solid #e2e8f0; border-radius: 6px; padding: 8px 12px; margin-bottom: 8px;">
                  <p style="margin: 0; color: #4a5568; font-size: 13px; font-weight: 500; font-family: -apple-system, BlinkMacSystemFont, 'Segoe UI', Arial, sans-serif;">
                    '' @
     htmlDate clk @
     lit ''
                  </p>
                </div>
                <p style="margin: 0; color: #718096; font-size: 12px; font-family: -apple-system, BlinkMacSystemFont, 'Segoe UI', Arial, sans-serif;">
                  Sent via '' @
     envText env ''SITE_NAME'' @
     lit '' Contact Form
                </p>
              </div>
            </div>

          </div>
        </body>
        </html>
      ''\<close>

definition text_body :: "clock \<Rightarrow> jsstring submission \<Rightarrow> jsstring" where
  \<open>text_body clk sd =
     lit ''\<newline>New Contact Form Submission\<newline>\<newline>Name: '' @
     fullname sd @
     lit ''\<newline>Email: '' @
     email sd @
     lit ''\<newline>\<newline>Message:\<newline>'' @
     message sd @
     lit ''\<newline>\<newline>Submitted on: '' @
     textDate clk @
     lit ''\<newline>      ''\<close>

definition mailOptions :: "env \<Rightarrow> clock \<Rightarrow> jsstring submission \<Rightarrow> mailOptions" where
  \<open>mailOptions env clk sd =
     \<lparr>mail_from = lit ''"'' @ envText env ''SITE_NAME'' @ lit '' Contact Form" <'' @
                   envText env ''EMAIL_FROM'' @ lit ''>'',
      mail_to = env ''EMAIL_USER'',
      mail_subject = lit ''New Contact - '' @ fullname sd,
      mail_html = html_body env clk sd,
      mail_text = text_body clk sd\<rparr>\<close>

section \<open>Responses, errors and the mail transport\<close>

text \<open>
  \<open>res.status(n).json({success: true, message})\<close> and
  \<open>res.status(n).json({success: false, error})\<close>.
\<close>

datatype payload = Success jsstring | Failure jsstring

datatype response = Response (status: nat) (payload: payload)

text \<open>A thrown or rejected error object, by its \<open>code\<close> property (absent on a TypeError).\<close>

datatype js_error = Error (code: "jsstring option")

text \<open>
  The transporter that \<open>nodemailer.createTransport\<close> returns is a collaborator: what
  \<open>verify()\<close> and \<open>sendMail(mailOptions)\<close> answer is given. \<open>verify\<close> is \<open>None\<close>
  when it resolves; \<open>sendMail\<close> resolves with the message id (\<open>Inr\<close>) or rejects.
  Creating the transporter opens no connection; the calls that reach the transport are the
  trace the handler returns beside its response.
\<close>

record transport =
  verify :: "js_error option"
  sendMail :: "mailOptions \<Rightarrow> js_error + jsstring"

datatype call = Verify | SendMail mailOptions

section \<open>\<open>app.post('/api/contact')\<close>\<close>

definition requiredEnvVars :: "string list" where
  "requiredEnvVars = [''EMAIL_USER'', ''EMAIL_PASS'', ''SITE_NAME'', ''EMAIL_FROM'']"

text \<open>\<open>!process.env[varName]\<close>: the variable is unset or the empty string.\<close>

definition missingVars :: "env \<Rightarrow> string list" where
  "missingVars env =
     filter (\<lambda>varName. case env varName of None \<Rightarrow> True | Some v \<Rightarrow> v = []) requiredEnvVars"

text \<open>The outer \<open>catch (error)\<close> block.\<close>

definition catch_response :: "js_error \<Rightarrow> response" where
  "catch_response error =
     (if code error = Some (lit ''EAUTH'') then
        Response 500 (Failure (lit ''Email authentication failed. Please contact the administrator.''))
      else if code error = Some (lit ''ECONNECTION'') then
        Response 500 (Failure (lit ''Unable to connect to email service. Please try again later.''))
      else Response 500 (Failure (lit ''Failed to send message. Please try again later.'')))"

text \<open>
  The handler up to sanitization. \<open>req.body\<close> is \<open>None\<close> when no body was parsed and
  the property is \<open>undefined\<close>: \<open>const { fullname, email, message } = req.body\<close>, which
  comes after the configuration check, then throws a TypeError, and the outer \<open>catch\<close>
  answers it. The result is the response of the early return taken (\<open>Inl\<close>), or the
  destructured fields when none is taken (\<open>Inr\<close>).
\<close>

definition validation :: "env \<Rightarrow> jsval submission option \<Rightarrow> response + jsval submission" where
  "validation env req_body =
     (if length (missingVars env) > 0 then
        Inl (Response 500 (Failure (lit ''Server configuration error. Please contact the administrator.'')))
      else case req_body of
        None \<Rightarrow> Inl (catch_response (Error None))
      | Some body \<Rightarrow>
         if \<not> truthy (fullname body) \<or> \<not> truthy (email body) \<or> \<not> truthy (message body) then
           Inl (Response 400 (Failure (lit ''All fields are required'')))
         else if \<not> emailRegex_test (ToString (email body)) then
           Inl (Response 400 (Failure (lit ''Please provide a valid email address'')))
         else Inr body)"

text \<open>
  The handler: the response sent, and the calls made to the transport, in order.
  Logging is left out.
\<close>

definition contact_handler ::
  "(jsstring \<Rightarrow> jsstring) \<Rightarrow> env \<Rightarrow> transport \<Rightarrow> clock \<Rightarrow> jsval submission option \<Rightarrow>
     response \<times> call list" where
  "contact_handler U env transporter clk req_body =
     (case validation env req_body of
        Inl r \<Rightarrow> (r, [])
      | Inr body \<Rightarrow>
         (case string_fields body of
            None \<Rightarrow> (catch_response (Error None), [])
          | Some raw \<Rightarrow>
             (let sd = sanitizedData U raw in
              case verify transporter of
                Some verifyError \<Rightarrow>
                  (Response 500 (Failure (lit ''Email service is currently unavailable. Please try again later.'')),
                   [Verify])
              | None \<Rightarrow>
                 (let mo = mailOptions env clk sd in
                  case sendMail transporter mo of
                    Inl error \<Rightarrow> (catch_response error, [Verify, SendMail mo])
                  | Inr info \<Rightarrow>
                     (Response 200 (Success (lit ''Your message has been sent successfully!'')),
                      [Verify, SendMail mo])))))"

section \<open>Example inputs\<close>

text \<open>
  A complete configuration (the values of the README), a clock reading, the submission of
  the specification's end-to-end example, a transport that works and one that is down.
\<close>

definition example_env :: env where
  "example_env = map_of
     [(''EMAIL_USER'', lit ''your-email@gmail.com''),
      (''EMAIL_PASS'', lit ''your-gmail-app-password''),
      (''EMAIL_FROM'', lit ''your-email@gmail.com''),
      (''SITE_NAME'', lit ''Angelica Tejana Portfolio'')]"

definition example_clock :: clock where
  "example_clock =
     \<lparr>htmlDate = lit ''Tuesday, November 3, 2026 at 11:34 AM'',
      textDate = lit ''11/3/2026, 11:34:05 AM''\<rparr>"

definition example_body :: "jsval submission" where
  "example_body =
     \<lparr>fullname = Str (lit ''Jane Doe''), email = Str (lit ''jane@x.com''),
      message = Str (lit ''Hi there'')\<rparr>"

definition transport_ok :: transport where
  "transport_ok = \<lparr>verify = None, sendMail = (\<lambda>mo. Inr (lit ''<id@x.com>''))\<rparr>"

definition transport_down :: transport where
  "transport_down =
     \<lparr>verify = Some (Error (Some (lit ''ECONNECTION''))),
      sendMail = (\<lambda>mo. Inl (Error (Some (lit ''ECONNECTION''))))\<rparr>"

text \<open>An address of 104 code units: a hundred \<open>a\<close>, then \<open>@b.c\<close>.\<close>

definition long_email :: jsstring where
  "long_email = replicate 100 0x61 @ lit ''@b.c''"

text \<open>
  A name of 101 code units with a space as its hundredth, and a message of 2000 code
  units that starts with a space.
\<close>

definition trailing_space_name :: jsstring where
  "trailing_space_name = replicate 99 0x61 @ lit '' b''"

definition padded_message :: jsstring where
  "padded_message = 0x20 # replicate 1999 0x61"

text \<open>
  A submission with a name of 150 and a message of 2000 code units, none of them white
  space, and the clock one second after \<open>example_clock\<close>.
\<close>

definition long_body :: "jsval submission" where
  "long_body =
     \<lparr>fullname = Str (replicate 150 0x61), email = Str (lit ''jane@x.com''),
      message = Str (replicate 2000 0x61)\<rparr>"

definition later_clock :: clock where
  "later_clock = example_clock\<lparr>textDate := lit ''11/3/2026, 11:34:06 AM''\<rparr>"

section \<open>Code units: white space and ASCII lower-casing\<close>

lemma isWhiteSpace_unat:
  "isWhiteSpace c \<longleftrightarrow>
     unat c = 9 \<or> unat c = 10 \<or> unat c = 11 \<or> unat c = 12 \<or> unat c = 13 \<or> unat c = 32 \<or>
     unat c = 160 \<or> unat c = 5760 \<or> (8192 \<le> unat c \<and> unat c \<le> 8202) \<or> unat c = 8232 \<or>
     unat c = 8233 \<or> unat c = 8239 \<or> unat c = 8287 \<or> unat c = 12288 \<or> unat c = 65279"
  unfolding isWhiteSpace_def by (simp add: word_le_nat_alt word_unat_eq_iff)

lemma unat_asciiLower:
  "unat (asciiLower c) = (if 65 \<le> unat c \<and> unat c \<le> 90 then unat c + 32 else unat c)"
  unfolding asciiLower_def by (simp add: word_le_nat_alt unat_word_ariths)

lemma isWhiteSpace_asciiLower: "isWhiteSpace (asciiLower c) = isWhiteSpace c"
  unfolding isWhiteSpace_unat unat_asciiLower by (cases "65 \<le> unat c \<and> unat c \<le> 90") auto

lemma asciiLower_at: "asciiLower c = 0x40 \<longleftrightarrow> c = 0x40"
  unfolding word_unat_eq_iff unat_asciiLower by auto

lemma asciiLower_dot: "asciiLower c = 0x2E \<longleftrightarrow> c = 0x2E"
  unfolding word_unat_eq_iff unat_asciiLower by auto

lemma asciiLower_idem: "asciiLower (asciiLower c) = asciiLower c"
  unfolding word_unat_eq_iff unat_asciiLower by auto

lemma isASCII_asciiLower: "isASCII (asciiLower c) = isASCII c"
  unfolding isASCII_def word_less_nat_alt unat_asciiLower by auto

lemma notSpaceAt_asciiLower: "notSpaceAt (asciiLower c) = notSpaceAt c"
  by (simp add: notSpaceAt_def isWhiteSpace_asciiLower asciiLower_at)

lemma plusClass_asciiLower: "plusClass (map asciiLower s) = plusClass s"
  by (simp add: plusClass_def list_all_iff notSpaceAt_asciiLower)

section \<open>What the email pattern accepts\<close>

text \<open>
  The pattern accepts exactly the strings of the form \<open>local @ domain . tld\<close> with three
  non-empty parts free of white space and of \<open>@\<close>.
\<close>

lemma emailRegex_test_iff:
  "emailRegex_test s \<longleftrightarrow>
     (\<exists>l d t. s = l @ 0x40 # d @ 0x2E # t \<and> plusClass l \<and> plusClass d \<and> plusClass t)"
proof
  assume "emailRegex_test s"
  then obtain i j where ij: "i < length s" "j < length s" "i < j"
    and at: "s ! i = 0x40" and dot: "s ! j = 0x2E"
    and parts: "plusClass (take i s)" "plusClass (take (j - Suc i) (drop (Suc i) s))"
      "plusClass (drop (Suc j) s)"
    by (auto simp: emailRegex_test_def list_ex_iff)
  let ?r = "drop (Suc i) s"
  have 1: "s = take i s @ s ! i # ?r"
    using ij(1) by (rule id_take_nth_drop)
  have jr: "j - Suc i < length ?r" using ij by simp
  have 2: "?r = take (j - Suc i) ?r @ ?r ! (j - Suc i) # drop (Suc (j - Suc i)) ?r"
    using jr by (rule id_take_nth_drop)
  have 3: "?r ! (j - Suc i) = s ! j" using ij by simp
  have 4: "drop (Suc (j - Suc i)) ?r = drop (Suc j) s" using ij by simp
  have "s = take i s @ 0x40 # take (j - Suc i) ?r @ 0x2E # drop (Suc j) s"
    using 1 2 3 4 at dot by metis
  with parts show "\<exists>l d t. s = l @ 0x40 # d @ 0x2E # t \<and> plusClass l \<and> plusClass d \<and> plusClass t"
    by blast
next
  assume "\<exists>l d t. s = l @ 0x40 # d @ 0x2E # t \<and> plusClass l \<and> plusClass d \<and> plusClass t"
  then obtain l d t where s: "s = l @ 0x40 # d @ 0x2E # t"
    and p: "plusClass l" "plusClass d" "plusClass t" by blast
  let ?i = "length l" and ?j = "length l + Suc (length d)"
  have "?i < length s" "?j < length s" by (simp_all add: s)
  then have "?i \<in> set [0..<length s]" "?j \<in> set [0..<length s]"
    by (simp_all only: set_upt atLeastLessThan_iff le0 simp_thms)
  moreover have "?i < ?j" by simp
  moreover have "s ! ?i = 0x40" by (simp add: s)
  moreover have "s ! ?j = 0x2E" by (simp add: s nth_append)
  moreover have "take ?i s = l" by (simp add: s)
  moreover have "take (?j - Suc ?i) (drop (Suc ?i) s) = d" by (simp add: s)
  moreover have "drop (Suc ?j) s = t"
  proof -
    have "s = (l @ 0x40 # d @ [0x2E]) @ t" by (simp add: s)
    moreover have "Suc ?j = length (l @ 0x40 # d @ [0x2E])" by simp
    ultimately show ?thesis by (metis append_eq_conv_conj)
  qed
  ultimately show "emailRegex_test s"
    unfolding emailRegex_test_def list_ex_iff using p by metis
qed

lemma at_dot_not_space: "\<not> isWhiteSpace 0x40" "\<not> isWhiteSpace 0x2E"
  by (simp_all add: isWhiteSpace_def)

lemma emailRegex_test_no_space:
  assumes "emailRegex_test s" shows "\<forall>c \<in> set s. \<not> isWhiteSpace c"
proof -
  from assms obtain l d t where s: "s = l @ 0x40 # d @ 0x2E # t"
    and p: "plusClass l" "plusClass d" "plusClass t"
    unfolding emailRegex_test_iff by blast
  from p have "\<forall>c \<in> set l \<union> set d \<union> set t. \<not> isWhiteSpace c"
    by (auto simp: plusClass_def notSpaceAt_def list_all_iff)
  then show ?thesis using at_dot_not_space by (auto simp: s)
qed

lemma emailRegex_test_nonempty: "emailRegex_test s \<Longrightarrow> s \<noteq> []"
  unfolding emailRegex_test_iff by auto

lemma emailRegex_test_has_at: "emailRegex_test s \<Longrightarrow> 0x40 \<in> set s"
  unfolding emailRegex_test_iff by auto

section \<open>Trimming\<close>

lemma trim_eq_self_iff:
  "trim s = s \<longleftrightarrow> s = [] \<or> (\<not> isWhiteSpace (hd s) \<and> \<not> isWhiteSpace (last s))"
proof (cases "s = []")
  case True then show ?thesis by (simp add: trim_def)
next
  case False
  show ?thesis
  proof (cases "isWhiteSpace (hd s)")
    case True
    then have "length (dropWhile isWhiteSpace s) < length s"
      using False by (cases s) (auto simp: less_Suc_eq_le length_dropWhile_le)
    moreover have "length (trim s) \<le> length (dropWhile isWhiteSpace s)"
      unfolding trim_def by (simp add: length_dropWhile_le order_trans[OF length_dropWhile_le])
    ultimately have "trim s \<noteq> s" by auto
    with True False show ?thesis by simp
  next
    case hd: False
    then have 1: "dropWhile isWhiteSpace s = s" using False by (cases s) auto
    show ?thesis
    proof (cases "isWhiteSpace (last s)")
      case True
      then have "length (dropWhile isWhiteSpace (rev s)) < length (rev s)"
        using False by (cases "rev s") (auto simp: less_Suc_eq_le length_dropWhile_le last_rev hd_rev)
      then have "trim s \<noteq> s" unfolding trim_def 1 by (metis length_rev nat_neq_iff)
      with True False show ?thesis by simp
    next
      case l: False
      then have "dropWhile isWhiteSpace (rev s) = rev s"
        using False by (cases "rev s") (auto simp: hd_rev)
      then show ?thesis using hd l False by (simp add: trim_def 1)
    qed
  qed
qed

lemma trim_no_space: "\<forall>c \<in> set s. \<not> isWhiteSpace c \<Longrightarrow> trim s = s"
  unfolding trim_eq_self_iff by (cases s) auto

lemma trim_trim: "trim (trim s) = trim s"
proof -
  let ?t = "trim s"
  have "?t = [] \<or> (\<not> isWhiteSpace (hd ?t) \<and> \<not> isWhiteSpace (last ?t))"
  proof (cases "?t = []")
    case False
    let ?d = "dropWhile isWhiteSpace (rev (dropWhile isWhiteSpace s))"
    have d: "?d \<noteq> []" using False by (simp add: trim_def)
    then have "\<not> isWhiteSpace (hd ?d)" by (rule hd_dropWhile)
    then have l: "\<not> isWhiteSpace (last ?t)" using d by (simp add: trim_def last_rev)
    have "dropWhile isWhiteSpace s \<noteq> []" using d by (cases "dropWhile isWhiteSpace s") auto
    then have h: "\<not> isWhiteSpace (hd (dropWhile isWhiteSpace s))" by (rule hd_dropWhile)
    have "hd ?t = last ?d" using d by (simp add: trim_def hd_rev)
    also have "\<dots> = last (rev (dropWhile isWhiteSpace s))"
      using d by (metis last_appendR takeWhile_dropWhile_id)
    also have "\<dots> = hd (dropWhile isWhiteSpace s)"
      using \<open>dropWhile isWhiteSpace s \<noteq> []\<close> by (simp add: last_rev)
    finally show ?thesis using h l by simp
  qed simp
  then show ?thesis by (simp add: trim_eq_self_iff)
qed

lemma trim_empty_iff: "trim s = [] \<longleftrightarrow> (\<forall>c \<in> set s. isWhiteSpace c)"
proof -
  let ?d = "dropWhile isWhiteSpace s"
  have "trim s = [] \<longleftrightarrow> (\<forall>c \<in> set ?d. isWhiteSpace c)"
    by (simp add: trim_def)
  also have "\<dots> \<longleftrightarrow> ?d = []"
  proof (cases "?d = []")
    case False
    then have "\<not> isWhiteSpace (hd ?d)" by (rule hd_dropWhile)
    moreover have "hd ?d \<in> set ?d" using False by simp
    ultimately show ?thesis using False by blast
  next
    case True
    show ?thesis unfolding True by simp
  qed
  also have "\<dots> \<longleftrightarrow> (\<forall>c \<in> set s. isWhiteSpace c)"
    by simp
  finally show ?thesis .
qed

section \<open>Concrete strings\<close>

lemma regex_a_b_c: "emailRegex_test (lit ''a@b.c'')"
  by code_simp

lemma regex_not_an_email: "\<not> emailRegex_test (lit ''not-an-email'')"
  by code_simp

lemma regex_jane: "emailRegex_test (lit ''jane@x.com'')"
  by code_simp

lemma regex_padded: "\<not> emailRegex_test (lit '' a@b.c '')"
  by code_simp

lemma lower_trim_padded: "toLowerCase U (trim (lit '' a@b.c '')) = lit ''a@b.c''"
  by (simp add: toLowerCase_def trim_def lit_def isWhiteSpace_def isASCII_def asciiLower_def)

lemma sanitizedData_jane:
  "sanitizedData U \<lparr>fullname = lit ''Jane Doe'', email = lit ''jane@x.com'', message = lit ''Hi there''\<rparr>
     = \<lparr>fullname = lit ''Jane Doe'', email = lit ''jane@x.com'', message = lit ''Hi there''\<rparr>"
  by (simp add: sanitizedData_def substring0_def toLowerCase_def trim_def lit_def isWhiteSpace_def
      isASCII_def asciiLower_def)

lemma lit_eq_Nil [simp]: "lit s = [] \<longleftrightarrow> s = []"
  by (simp add: lit_def)

lemma regex_long_email: "emailRegex_test long_email"
proof -
  have "long_email = replicate 100 0x61 @ 0x40 # [0x62] @ 0x2E # [0x63]"
    by (simp add: long_email_def lit_def)
  moreover have "plusClass (replicate 100 0x61)" "plusClass [0x62]" "plusClass [0x63]"
    by (simp_all add: plusClass_def list_all_iff notSpaceAt_def isWhiteSpace_def)
  ultimately show ?thesis unfolding emailRegex_test_iff by blast
qed

lemma sanitized_long_email:
  "substring0 100 (toLowerCase U (trim long_email)) = replicate 100 0x61"
proof -
  have "\<forall>c \<in> set long_email. \<not> isWhiteSpace c"
    by (simp add: long_email_def lit_def isWhiteSpace_def)
  then have 1: "trim long_email = long_email" by (rule trim_no_space)
  have 2: "list_all isASCII long_email"
    by (simp add: long_email_def lit_def isASCII_def list_all_iff)
  have 3: "map asciiLower long_email = long_email"
    by (simp add: long_email_def lit_def asciiLower_def)
  show ?thesis
    unfolding 1 toLowerCase_def using 2 3 by (simp add: substring0_def long_email_def)
qed

lemma not_regex_sanitized_long_email:
  "\<not> emailRegex_test (substring0 100 (toLowerCase U (trim long_email)))"
  unfolding sanitized_long_email using emailRegex_test_has_at by fastforce


section \<open>The gates of the handler\<close>

lemma missingVars_example_env: "missingVars example_env = []"
  by (simp add: missingVars_def requiredEnvVars_def example_env_def lit_def)

lemma validation_example_body: "validation example_env (Some example_body) = Inr example_body"
  by (simp add: validation_def missingVars_example_env example_body_def regex_jane)

lemma missingVars_Nil_iff:
  "missingVars env = [] \<longleftrightarrow> (\<forall>k \<in> set requiredEnvVars. \<exists>v. env k = Some v \<and> v \<noteq> [])"
  by (auto simp: missingVars_def filter_empty_conv split: option.splits)

lemma status_catch_response: "status (catch_response e) = 500"
  by (simp add: catch_response_def)

lemma contact_handler_accepted:
  assumes "validation env (Some body) = Inr body"
  shows "status (fst (contact_handler U env transporter clk (Some body))) \<in> {200, 500}"
  using assms
  by (simp add: contact_handler_def Let_def status_catch_response split: option.splits sum.splits)

lemma validation_Inr_iff:
  "validation env (Some body) = Inr body \<longleftrightarrow>
     missingVars env = [] \<and> truthy (fullname body) \<and> truthy (email body) \<and>
     truthy (message body) \<and> emailRegex_test (ToString (email body))"
  by (auto simp: validation_def)

lemma string_fields_Some:
  assumes "string_fields body = Some raw"
  shows "fullname body = Str (fullname raw) \<and> email body = Str (email raw) \<and>
         message body = Str (message raw)"
  using assms by (rule string_fields.elims) auto

lemma toLowerCase_ascii: "list_all isASCII s \<Longrightarrow> toLowerCase U s = map asciiLower s"
  by (simp add: toLowerCase_def)

lemma emailRegex_test_asciiLower:
  assumes "emailRegex_test s" shows "emailRegex_test (map asciiLower s)"
proof -
  from assms obtain l d t where s: "s = l @ 0x40 # d @ 0x2E # t"
    and p: "plusClass l" "plusClass d" "plusClass t"
    unfolding emailRegex_test_iff by blast
  have a: "asciiLower 0x40 = 0x40" by (simp add: asciiLower_at)
  have b: "asciiLower 0x2E = 0x2E" by (simp add: asciiLower_dot)
  have "map asciiLower s = map asciiLower l @ 0x40 # map asciiLower d @ 0x2E # map asciiLower t"
    unfolding s by (simp only: map_append list.map a b)
  moreover have "plusClass (map asciiLower l)" "plusClass (map asciiLower d)"
    "plusClass (map asciiLower t)"
    using p by (simp_all only: plusClass_asciiLower)
  ultimately show ?thesis unfolding emailRegex_test_iff by blast
qed

lemma contact_handler_verify_called:
  assumes "validation env (Some body) = Inr body" and "string_fields body = Some raw"
  shows "hd (snd (contact_handler U env transporter clk (Some body))) = Verify \<and>
         snd (contact_handler U env transporter clk (Some body)) \<noteq> []"
  using assms by (simp add: contact_handler_def Let_def split: option.splits sum.splits)

lemma substring0_trim_nonempty:
  "0 < n \<Longrightarrow> substring0 n (trim s) \<noteq> [] \<longleftrightarrow> (\<exists>c \<in> set s. \<not> isWhiteSpace c)"
  using trim_empty_iff [of s] by (auto simp: substring0_def)

lemma regex_imp_trim_id: "emailRegex_test s \<Longrightarrow> trim s = s"
  by (rule trim_no_space) (rule emailRegex_test_no_space)

section \<open>Sanitizing what is already sanitized\<close>

lemma hd_trim_not_space: "trim s \<noteq> [] \<Longrightarrow> \<not> isWhiteSpace (hd (trim s))"
  using trim_trim [of s] trim_eq_self_iff [of "trim s"] by simp

lemma trim_take_trim:
  assumes "take n (trim s) = [] \<or> \<not> isWhiteSpace (last (take n (trim s)))"
  shows "trim (take n (trim s)) = take n (trim s)"
proof (cases "take n (trim s) = []")
  case True
  show ?thesis unfolding True by (simp add: trim_def)
next
  case False
  then have "trim s \<noteq> []" "0 < n" by auto
  then have "\<not> isWhiteSpace (hd (take n (trim s)))"
    using hd_trim_not_space [of s] by simp
  then show ?thesis using assms False by (simp add: trim_eq_self_iff)
qed

lemma sanitize_field_idem:
  assumes "substring0 n (trim s) = [] \<or> \<not> isWhiteSpace (last (substring0 n (trim s)))"
  shows "substring0 n (trim (substring0 n (trim s))) = substring0 n (trim s)"
  using trim_take_trim [of n s] assms by (simp add: substring0_def)

lemma trim_map_asciiLower: "trim (map asciiLower s) = map asciiLower (trim s)"
proof -
  have c: "isWhiteSpace \<circ> asciiLower = isWhiteSpace"
    by (rule ext) (simp add: isWhiteSpace_asciiLower)
  have d: "dropWhile isWhiteSpace (map asciiLower xs) = map asciiLower (dropWhile isWhiteSpace xs)"
    for xs by (simp only: dropWhile_map c)
  show ?thesis by (simp only: trim_def d rev_map)
qed

lemma list_all_isASCII_trim: "list_all isASCII s \<Longrightarrow> list_all isASCII (trim s)"
  unfolding trim_def list_all_iff
  by (metis set_rev set_dropWhileD)

lemma sanitize_email_ascii_idem:
  assumes a: "list_all isASCII e"
    and l: "substring0 100 (toLowerCase U (trim e)) = [] \<or>
            \<not> isWhiteSpace (last (substring0 100 (toLowerCase U (trim e))))"
  shows "substring0 100 (toLowerCase U (trim (substring0 100 (toLowerCase U (trim e))))) =
         substring0 100 (toLowerCase U (trim e))"
proof -
  have ta: "list_all isASCII (trim e)" using a by (rule list_all_isASCII_trim)
  have 1: "toLowerCase U (trim e) = trim (map asciiLower e)"
    using ta by (simp add: toLowerCase_ascii trim_map_asciiLower)
  let ?x = "take 100 (trim (map asciiLower e))"
  have x: "substring0 100 (toLowerCase U (trim e)) = ?x" by (simp add: substring0_def 1)
  have 2: "trim ?x = ?x" using l unfolding x by (rule trim_take_trim)
  have "list_all isASCII (map asciiLower e)"
    using a by (simp add: list_all_iff isASCII_asciiLower)
  then have "list_all isASCII (trim (map asciiLower e))" by (rule list_all_isASCII_trim)
  then have 3: "list_all isASCII ?x" by (auto simp: list_all_iff dest: in_set_takeD)
  have "map asciiLower (map asciiLower e) = map asciiLower e"
    by (induction e) (simp_all add: asciiLower_idem)
  then have "map asciiLower (trim (map asciiLower e)) = trim (map asciiLower e)"
    by (simp only: trim_map_asciiLower [symmetric])
  then have 4: "map asciiLower ?x = ?x" by (simp add: take_map [symmetric])
  show ?thesis
    unfolding x 2 using 3 4 by (simp add: toLowerCase_ascii substring0_def)
qed


lemma length_trim_le: "length (trim s) \<le> length s"
proof -
  have "length (trim s) \<le> length (dropWhile isWhiteSpace s)"
    unfolding trim_def using length_dropWhile_le [of isWhiteSpace "rev (dropWhile isWhiteSpace s)"]
    by simp
  also have "\<dots> \<le> length s" by (rule length_dropWhile_le)
  finally show ?thesis .
qed

lemma sanitize_email_fixed_idem:
  assumes l: "substring0 100 (toLowerCase U (trim e)) = [] \<or>
            \<not> isWhiteSpace (last (substring0 100 (toLowerCase U (trim e))))"
    and h: "\<not> isWhiteSpace (hd (substring0 100 (toLowerCase U (trim e))))"
    and f: "toLowerCase U (substring0 100 (toLowerCase U (trim e))) =
            substring0 100 (toLowerCase U (trim e))"
  shows "substring0 100 (toLowerCase U (trim (substring0 100 (toLowerCase U (trim e))))) =
         substring0 100 (toLowerCase U (trim e))"
proof -
  let ?x = "substring0 100 (toLowerCase U (trim e))"
  have "trim ?x = ?x" using l h by (auto simp: trim_eq_self_iff)
  then show ?thesis using f by (simp add: substring0_def)
qed

lemma sanitized_trailing_space_name:
  "substring0 100 (trim trailing_space_name) = replicate 99 0x61 @ [0x20]"
proof -
  have ne: "trailing_space_name \<noteq> []" by (simp add: trailing_space_name_def)
  have "hd trailing_space_name = 0x61" by (simp add: trailing_space_name_def hd_append)
  moreover have "last trailing_space_name = 0x62" by (simp add: trailing_space_name_def lit_def)
  ultimately have "trim trailing_space_name = trailing_space_name"
    by (simp add: trim_eq_self_iff isWhiteSpace_def)
  then show ?thesis by (simp add: substring0_def trailing_space_name_def lit_def)
qed

section \<open>Long inputs and clock readings\<close>

lemma dropWhile_replicate_id: "\<not> P a \<Longrightarrow> dropWhile P (replicate n a) = replicate n a"
  by (cases n) simp_all

lemma trim_replicate_a: "trim (replicate n 0x61) = replicate n 0x61"
  by (rule trim_no_space) (simp add: isWhiteSpace_def)

lemma trim_padded_message: "trim padded_message = replicate 1999 0x61"
proof -
  have a: "\<not> isWhiteSpace 0x61" and s: "isWhiteSpace 0x20" by (simp_all add: isWhiteSpace_def)
  have "dropWhile isWhiteSpace padded_message = replicate 1999 0x61"
    unfolding padded_message_def using a s by (simp add: dropWhile_replicate_id)
  then show ?thesis
    unfolding trim_def using a by (simp add: dropWhile_replicate_id)
qed

lemma lit_date_neq: "lit ''11/3/2026, 11:34:05 AM'' \<noteq> lit ''11/3/2026, 11:34:06 AM''"
  by (simp add: lit_def)

section \<open>The claims\<close>

text \<open>
  C3. Whatever the request body (an absent one included), if one of the four required
  configuration variables is unset or empty, the handler answers 500 with the one generic
  configuration message, the field and email checks play no part, and no call reaches
  the mail transport.
\<close>

theorem C3_configuration_error:
  assumes "k \<in> set requiredEnvVars" and "env k = None \<or> env k = Some []"
  shows "contact_handler U env transporter clk req_body =
    (Response 500 (Failure (lit ''Server configuration error. Please contact the administrator.'')), [])"
proof -
  have "k \<in> set (missingVars env)"
    using assms by (auto simp: missingVars_def)
  then have "length (missingVars env) > 0" by (cases "missingVars env") auto
  then show ?thesis by (simp add: contact_handler_def validation_def)
qed

theorem C3_configuration_error_witness:
  "''SITE_NAME'' \<in> set requiredEnvVars \<and>
   (example_env(''SITE_NAME'' := None)) ''SITE_NAME'' = None \<and>
   contact_handler id (example_env(''SITE_NAME'' := None)) transport_ok example_clock (Some example_body) =
    (Response 500 (Failure (lit ''Server configuration error. Please contact the administrator.'')), []) \<and>
   contact_handler id (example_env(''SITE_NAME'' := None)) transport_ok example_clock None =
    (Response 500 (Failure (lit ''Server configuration error. Please contact the administrator.'')), [])"
proof -
  have 1: "''SITE_NAME'' \<in> set requiredEnvVars" by (simp add: requiredEnvVars_def)
  have 2: "(example_env(''SITE_NAME'' := None)) ''SITE_NAME'' = None \<or>
           (example_env(''SITE_NAME'' := None)) ''SITE_NAME'' = Some []" by simp
  show ?thesis
    using 1 C3_configuration_error [of "''SITE_NAME''" "example_env(''SITE_NAME'' := None)", OF 1 2]
    by simp
qed

text \<open>
  The presence check, for a request whose body was parsed into an object: with a complete
  configuration, a field that is missing or the empty string is answered 400 "All fields
  are required", and no call reaches the mail transport. A request without a parsed body
  never reaches that check.
\<close>

lemma missing_field_parsed_body:
  assumes "missingVars env = []"
    and "fullname body \<in> {Undefined, Str []} \<or> email body \<in> {Undefined, Str []} \<or>
         message body \<in> {Undefined, Str []}"
  shows "contact_handler U env transporter clk (Some body) =
    (Response 400 (Failure (lit ''All fields are required'')), [])"
proof -
  have "\<not> truthy (fullname body) \<or> \<not> truthy (email body) \<or> \<not> truthy (message body)"
    using assms(2) by auto
  then show ?thesis using assms(1) by (simp add: contact_handler_def validation_def)
qed

lemma absent_body:
  assumes "missingVars env = []"
  shows "contact_handler U env transporter clk None =
    (Response 500 (Failure (lit ''Failed to send message. Please try again later.'')), [])"
  using assms by (simp add: contact_handler_def validation_def catch_response_def)

text \<open>
  C4 at a request without a parsed body, where all three fields are missing: the
  destructuring of \<open>req.body\<close> throws before the presence check is reached, and the
  handler answers 500 "Failed to send message" instead of the 400 of the presence check.
  No call reaches the mail transport.
\<close>

theorem C4_absent_body:
  "missingVars example_env = [] \<and>
   contact_handler id example_env transport_ok example_clock None =
     (Response 500 (Failure (lit ''Failed to send message. Please try again later.'')), []) \<and>
   contact_handler id example_env transport_ok example_clock
     (Some \<lparr>fullname = Undefined, email = Undefined, message = Undefined\<rparr>) =
     (Response 400 (Failure (lit ''All fields are required'')), [])"
  using missingVars_example_env
    absent_body [OF missingVars_example_env, of id transport_ok example_clock]
    missing_field_parsed_body [OF missingVars_example_env,
      of "\<lparr>fullname = Undefined, email = Undefined, message = Undefined\<rparr>"
         id transport_ok example_clock]
  by simp

text \<open>
  C5. With a complete configuration and all three fields present, the handler answers
  400 exactly when the email does not match the pattern, and then with "Please provide a
  valid email address" and no transport call. \<open>not-an-email\<close> does not match;
  \<open>a@b.c\<close> does.
\<close>

theorem C5_email_shape:
  assumes "missingVars env = []"
    and "truthy (fullname body)" and "truthy (email body)" and "truthy (message body)"
  shows "(status (fst (contact_handler U env transporter clk (Some body))) = 400
            \<longleftrightarrow> \<not> emailRegex_test (ToString (email body))) \<and>
         (\<not> emailRegex_test (ToString (email body)) \<longrightarrow>
            contact_handler U env transporter clk (Some body) =
              (Response 400 (Failure (lit ''Please provide a valid email address'')), [])) \<and>
         \<not> emailRegex_test (lit ''not-an-email'') \<and> emailRegex_test (lit ''a@b.c'')"
proof (cases "emailRegex_test (ToString (email body))")
  case True
  then have "validation env (Some body) = Inr body" using assms by (simp add: validation_def)
  then have "status (fst (contact_handler U env transporter clk (Some body))) \<in> {200, 500}"
    by (rule contact_handler_accepted)
  then have "status (fst (contact_handler U env transporter clk (Some body))) \<noteq> 400" by auto
  with True show ?thesis using regex_not_an_email regex_a_b_c by simp
next
  case False
  then have "contact_handler U env transporter clk (Some body) =
      (Response 400 (Failure (lit ''Please provide a valid email address'')), [])"
    using assms by (simp add: contact_handler_def validation_def)
  with False show ?thesis using regex_not_an_email regex_a_b_c by simp
qed

theorem C5_email_shape_witness:
  "missingVars example_env = [] \<and>
   status (fst (contact_handler id example_env transport_ok example_clock
     (Some \<lparr>fullname = Str (lit ''Jane Doe''), email = Str (lit ''not-an-email''),
      message = Str (lit ''Hi there'')\<rparr>))) = 400 \<and>
   contact_handler id example_env transport_ok example_clock
     (Some \<lparr>fullname = Str (lit ''Jane Doe''), email = Str (lit ''not-an-email''),
      message = Str (lit ''Hi there'')\<rparr>) =
     (Response 400 (Failure (lit ''Please provide a valid email address'')), []) \<and>
   status (fst (contact_handler id example_env transport_ok example_clock
     (Some \<lparr>fullname = Str (lit ''Jane Doe''), email = Str (lit ''a@b.c''),
      message = Str (lit ''Hi there'')\<rparr>))) \<noteq> 400"
  using missingVars_example_env regex_not_an_email regex_a_b_c
    C5_email_shape [of example_env
      "\<lparr>fullname = Str (lit ''Jane Doe''), email = Str (lit ''not-an-email''),
        message = Str (lit ''Hi there'')\<rparr>" id transport_ok example_clock]
    C5_email_shape [of example_env
      "\<lparr>fullname = Str (lit ''Jane Doe''), email = Str (lit ''a@b.c''),
        message = Str (lit ''Hi there'')\<rparr>" id transport_ok example_clock]
  by simp

text \<open>
  C7. For a submission that passed validation and was sanitized, a failing
  \<open>verify()\<close> is answered 500 with the generic "currently unavailable" message, and
  the only call made to the transport is that \<open>verify()\<close>: \<open>sendMail\<close> is not
  called.
\<close>

theorem C7_verify_fails:
  assumes "validation env (Some body) = Inr body" and "string_fields body = Some raw"
    and "verify transporter = Some verifyError"
  shows "contact_handler U env transporter clk (Some body) =
    (Response 500 (Failure (lit ''Email service is currently unavailable. Please try again later.'')),
     [Verify])"
  using assms by (simp add: contact_handler_def)

theorem C7_verify_fails_witness:
  "validation example_env (Some example_body) = Inr example_body \<and>
   string_fields example_body =
     Some \<lparr>fullname = lit ''Jane Doe'', email = lit ''jane@x.com'', message = lit ''Hi there''\<rparr> \<and>
   verify transport_down = Some (Error (Some (lit ''ECONNECTION''))) \<and>
   contact_handler id example_env transport_down example_clock (Some example_body) =
    (Response 500 (Failure (lit ''Email service is currently unavailable. Please try again later.'')),
     [Verify])"
proof -
  have 2: "string_fields example_body =
     Some \<lparr>fullname = lit ''Jane Doe'', email = lit ''jane@x.com'', message = lit ''Hi there''\<rparr>"
    by (simp add: example_body_def)
  have 3: "verify transport_down = Some (Error (Some (lit ''ECONNECTION'')))"
    by (simp add: transport_down_def)
  show ?thesis
    using validation_example_body 2 3 C7_verify_fails [OF validation_example_body 2 3] by simp
qed

text \<open>
  C9. The end-to-end example: Jane Doe's submission, a complete configuration and a
  transport whose \<open>verify()\<close> and \<open>sendMail\<close> succeed give 200 with
  "Your message has been sent successfully!", after one \<open>verify()\<close> and one
  \<open>sendMail\<close> of the message composed from the unchanged three fields.
\<close>

theorem C9_end_to_end:
  assumes "missingVars env = []" and "verify transporter = None"
    and "\<forall>mo. \<exists>info. sendMail transporter mo = Inr info"
  shows "contact_handler U env transporter clk
           (Some \<lparr>fullname = Str (lit ''Jane Doe''), email = Str (lit ''jane@x.com''),
            message = Str (lit ''Hi there'')\<rparr>) =
         (Response 200 (Success (lit ''Your message has been sent successfully!'')),
          [Verify,
           SendMail (mailOptions env clk
             \<lparr>fullname = lit ''Jane Doe'', email = lit ''jane@x.com'', message = lit ''Hi there''\<rparr>)])"
proof -
  let ?body = "\<lparr>fullname = Str (lit ''Jane Doe''), email = Str (lit ''jane@x.com''),
            message = Str (lit ''Hi there'')\<rparr>"
  let ?sd = "\<lparr>fullname = lit ''Jane Doe'', email = lit ''jane@x.com'', message = lit ''Hi there''\<rparr>"
  have v: "validation env (Some ?body) = Inr ?body"
    using assms(1) by (simp add: validation_def regex_jane)
  obtain info where "sendMail transporter (mailOptions env clk ?sd) = Inr info"
    using assms(3) by blast
  then show ?thesis
    using v assms(2) by (simp add: contact_handler_def sanitizedData_jane)
qed

theorem C9_end_to_end_witness:
  "missingVars example_env = [] \<and> verify transport_ok = None \<and>
   (\<forall>mo. \<exists>info. sendMail transport_ok mo = Inr info) \<and>
   fst (contact_handler id example_env transport_ok example_clock
           (Some \<lparr>fullname = Str (lit ''Jane Doe''), email = Str (lit ''jane@x.com''),
            message = Str (lit ''Hi there'')\<rparr>)) =
     Response 200 (Success (lit ''Your message has been sent successfully!''))"
proof -
  have 2: "verify transport_ok = None" by (simp add: transport_ok_def)
  have 3: "\<forall>mo. \<exists>info. sendMail transport_ok mo = Inr info" by (simp add: transport_ok_def)
  show ?thesis
    using missingVars_example_env 2 3
      C9_end_to_end [OF missingVars_example_env 2 3, of id example_clock]
    by simp
qed


text \<open>
  C10. The pattern is tested on the email as received, before trimming and lower-casing.
  With a complete configuration and all fields present, an email that fails the pattern
  is answered 400 whatever its trimmed, lower-cased form looks like (\<open>" a@b.c "\<close> fails
  although its sanitized form matches). An email that matches is not answered 400, and
  for string fields the handler goes on to \<open>verify()\<close>, whether or not the sanitized
  email still matches (a hundred \<open>a\<close> followed by \<open>@b.c\<close> matches, its first
  hundred units do not).
\<close>

theorem C10_raw_email_checked:
  assumes "missingVars env = []"
    and "truthy (fullname body)" and "truthy (email body)" and "truthy (message body)"
  shows "(\<not> emailRegex_test (ToString (email body)) \<longrightarrow>
            contact_handler U env transporter clk (Some body) =
              (Response 400 (Failure (lit ''Please provide a valid email address'')), [])) \<and>
         (emailRegex_test (ToString (email body)) \<longrightarrow>
            status (fst (contact_handler U env transporter clk (Some body))) \<noteq> 400 \<and>
            (\<forall>raw. string_fields body = Some raw \<longrightarrow>
               hd (snd (contact_handler U env transporter clk (Some body))) = Verify \<and>
               snd (contact_handler U env transporter clk (Some body)) \<noteq> [])) \<and>
         \<not> emailRegex_test (lit '' a@b.c '') \<and>
         emailRegex_test (toLowerCase U (trim (lit '' a@b.c ''))) \<and>
         emailRegex_test long_email \<and>
         \<not> emailRegex_test (substring0 100 (toLowerCase U (trim long_email)))"
proof -
  have 1: "\<not> emailRegex_test (ToString (email body)) \<longrightarrow>
            contact_handler U env transporter clk (Some body) =
              (Response 400 (Failure (lit ''Please provide a valid email address'')), [])"
    using assms by (simp add: contact_handler_def validation_def)
  have 2: "emailRegex_test (ToString (email body)) \<longrightarrow>
            status (fst (contact_handler U env transporter clk (Some body))) \<noteq> 400 \<and>
            (\<forall>raw. string_fields body = Some raw \<longrightarrow>
               hd (snd (contact_handler U env transporter clk (Some body))) = Verify \<and>
               snd (contact_handler U env transporter clk (Some body)) \<noteq> [])"
  proof
    assume "emailRegex_test (ToString (email body))"
    then have v: "validation env (Some body) = Inr body" using assms by (simp add: validation_Inr_iff)
    have "status (fst (contact_handler U env transporter clk (Some body))) \<in> {200, 500}"
      using v by (rule contact_handler_accepted)
    then have "status (fst (contact_handler U env transporter clk (Some body))) \<noteq> 400" by auto
    then show "status (fst (contact_handler U env transporter clk (Some body))) \<noteq> 400 \<and>
            (\<forall>raw. string_fields body = Some raw \<longrightarrow>
               hd (snd (contact_handler U env transporter clk (Some body))) = Verify \<and>
               snd (contact_handler U env transporter clk (Some body)) \<noteq> [])"
      using contact_handler_verify_called [OF v] by blast
  qed
  have 3: "emailRegex_test (toLowerCase U (trim (lit '' a@b.c '')))"
    by (simp only: lower_trim_padded regex_a_b_c)
  show ?thesis
    using 1 2 3 regex_padded regex_long_email not_regex_sanitized_long_email by blast
qed

theorem C10_raw_email_checked_witness:
  "missingVars example_env = [] \<and>
   contact_handler id example_env transport_ok example_clock
     (Some \<lparr>fullname = Str (lit ''Jane Doe''), email = Str (lit '' a@b.c ''),
      message = Str (lit ''Hi there'')\<rparr>) =
     (Response 400 (Failure (lit ''Please provide a valid email address'')), []) \<and>
   status (fst (contact_handler id example_env transport_ok example_clock
     (Some \<lparr>fullname = Str (lit ''Jane Doe''), email = Str long_email,
      message = Str (lit ''Hi there'')\<rparr>))) \<noteq> 400 \<and>
   hd (snd (contact_handler id example_env transport_ok example_clock
     (Some \<lparr>fullname = Str (lit ''Jane Doe''), email = Str long_email,
      message = Str (lit ''Hi there'')\<rparr>))) = Verify"
  using missingVars_example_env regex_padded regex_long_email
    C10_raw_email_checked [of example_env
      "\<lparr>fullname = Str (lit ''Jane Doe''), email = Str (lit '' a@b.c ''),
        message = Str (lit ''Hi there'')\<rparr>" id transport_ok example_clock]
    C10_raw_email_checked [of example_env
      "\<lparr>fullname = Str (lit ''Jane Doe''), email = Str long_email,
        message = Str (lit ''Hi there'')\<rparr>" id transport_ok example_clock]
  by (simp add: long_email_def)


text \<open>
  C1, as stated, fails: a name that is a single space passes the presence check (a
  non-empty string is truthy) and is trimmed to the empty string, and an accepted email of
  more than a hundred units can lose its \<open>@\<close> in the cut.
\<close>

theorem C1_counterexample:
  "validation example_env
     (Some \<lparr>fullname = Str (lit '' ''), email = Str long_email, message = Str (lit ''hi'')\<rparr>) =
     Inr \<lparr>fullname = Str (lit '' ''), email = Str long_email, message = Str (lit ''hi'')\<rparr> \<and>
   fullname (sanitizedData id
     \<lparr>fullname = lit '' '', email = long_email, message = lit ''hi''\<rparr>) = [] \<and>
   \<not> emailRegex_test (email (sanitizedData id
     \<lparr>fullname = lit '' '', email = long_email, message = lit ''hi''\<rparr>))"
proof -
  have "trim (lit '' '') = []"
    by (simp add: trim_def lit_def isWhiteSpace_def)
  then show ?thesis
    using missingVars_example_env regex_long_email not_regex_sanitized_long_email [of id]
      emailRegex_test_nonempty [OF regex_long_email]
    by (simp add: validation_Inr_iff sanitizedData_def substring0_def)
qed

text \<open>
  C1, amended. For every submission that passed validation and is made of strings, the
  sanitized name and email have at most 100 code units and the message at most 1000; the
  sanitized name (message) is non-empty exactly when the raw name (message) has a code
  unit that is not white space; the sanitized email is the first 100 units of the
  lower-cased raw email (trimming leaves an accepted email unchanged), so it matches the
  pattern whenever that lower-cased email matches it and has at most 100 units; for an
  ASCII email of at most 100 units it is non-empty and matches the pattern.
\<close>

theorem C1_sanitized_fields:
  assumes "validation env (Some body) = Inr body" and "string_fields body = Some raw"
  shows "length (fullname (sanitizedData U raw)) \<le> 100 \<and>
         length (email (sanitizedData U raw)) \<le> 100 \<and>
         length (message (sanitizedData U raw)) \<le> 1000 \<and>
         (fullname (sanitizedData U raw) \<noteq> [] \<longleftrightarrow> (\<exists>c \<in> set (fullname raw). \<not> isWhiteSpace c)) \<and>
         (message (sanitizedData U raw) \<noteq> [] \<longleftrightarrow> (\<exists>c \<in> set (message raw). \<not> isWhiteSpace c)) \<and>
         email (sanitizedData U raw) = take 100 (toLowerCase U (email raw)) \<and>
         (length (toLowerCase U (email raw)) \<le> 100 \<and> emailRegex_test (toLowerCase U (email raw))
            \<longrightarrow> emailRegex_test (email (sanitizedData U raw))) \<and>
         (list_all isASCII (email raw) \<and> length (email raw) \<le> 100
            \<longrightarrow> email (sanitizedData U raw) \<noteq> [] \<and> emailRegex_test (email (sanitizedData U raw)))"
proof -
  have e: "email body = Str (email raw)" using string_fields_Some [OF assms(2)] by simp
  have r: "emailRegex_test (email raw)"
    using assms(1) e by (simp add: validation_Inr_iff)
  have t: "trim (email raw) = email raw" using r by (rule regex_imp_trim_id)
  have caps: "length (fullname (sanitizedData U raw)) \<le> 100"
    "length (email (sanitizedData U raw)) \<le> 100"
    "length (message (sanitizedData U raw)) \<le> 1000"
    by (simp_all add: sanitizedData_def substring0_def)
  have f: "fullname (sanitizedData U raw) \<noteq> [] \<longleftrightarrow> (\<exists>c \<in> set (fullname raw). \<not> isWhiteSpace c)"
    using substring0_trim_nonempty [of 100 "fullname raw"] by (simp add: sanitizedData_def)
  have m: "message (sanitizedData U raw) \<noteq> [] \<longleftrightarrow> (\<exists>c \<in> set (message raw). \<not> isWhiteSpace c)"
    using substring0_trim_nonempty [of 1000 "message raw"] by (simp add: sanitizedData_def)
  have em: "email (sanitizedData U raw) = take 100 (toLowerCase U (email raw))"
    by (simp add: sanitizedData_def substring0_def t)
  have g: "length (toLowerCase U (email raw)) \<le> 100 \<and> emailRegex_test (toLowerCase U (email raw))
            \<longrightarrow> emailRegex_test (email (sanitizedData U raw))"
    by (simp add: em)
  have a: "list_all isASCII (email raw) \<and> length (email raw) \<le> 100
            \<longrightarrow> email (sanitizedData U raw) \<noteq> [] \<and> emailRegex_test (email (sanitizedData U raw))"
  proof
    assume h: "list_all isASCII (email raw) \<and> length (email raw) \<le> 100"
    then have l: "toLowerCase U (email raw) = map asciiLower (email raw)"
      by (simp add: toLowerCase_ascii)
    have "emailRegex_test (map asciiLower (email raw))"
      using r by (rule emailRegex_test_asciiLower)
    then have "emailRegex_test (email (sanitizedData U raw))"
      using h by (simp add: em l)
    then show "email (sanitizedData U raw) \<noteq> [] \<and> emailRegex_test (email (sanitizedData U raw))"
      using emailRegex_test_nonempty by blast
  qed
  show ?thesis using caps f m em g a by blast
qed

theorem C1_sanitized_fields_witness:
  "validation example_env (Some example_body) = Inr example_body \<and>
   string_fields example_body =
     Some \<lparr>fullname = lit ''Jane Doe'', email = lit ''jane@x.com'', message = lit ''Hi there''\<rparr> \<and>
   list_all isASCII (lit ''jane@x.com'') \<and> length (lit ''jane@x.com'') \<le> 100 \<and>
   length (toLowerCase id (lit ''jane@x.com'')) \<le> 100 \<and>
   emailRegex_test (toLowerCase id (lit ''jane@x.com'')) \<and>
   (\<exists>c \<in> set (lit ''Jane Doe''). \<not> isWhiteSpace c) \<and>
   (\<exists>c \<in> set (lit ''Hi there''). \<not> isWhiteSpace c) \<and>
   length (fullname (sanitizedData id
     \<lparr>fullname = lit ''Jane Doe'', email = lit ''jane@x.com'', message = lit ''Hi there''\<rparr>)) \<le> 100 \<and>
   fullname (sanitizedData id
     \<lparr>fullname = lit ''Jane Doe'', email = lit ''jane@x.com'', message = lit ''Hi there''\<rparr>) \<noteq> [] \<and>
   message (sanitizedData id
     \<lparr>fullname = lit ''Jane Doe'', email = lit ''jane@x.com'', message = lit ''Hi there''\<rparr>) \<noteq> [] \<and>
   emailRegex_test (email (sanitizedData id
     \<lparr>fullname = lit ''Jane Doe'', email = lit ''jane@x.com'', message = lit ''Hi there''\<rparr>))"
proof -
  let ?raw = "\<lparr>fullname = lit ''Jane Doe'', email = lit ''jane@x.com'', message = lit ''Hi there''\<rparr>"
  have 2: "string_fields example_body = Some ?raw"
    by (simp add: example_body_def)
  have 3: "list_all isASCII (lit ''jane@x.com'') \<and> length (lit ''jane@x.com'') \<le> 100"
    by (simp add: lit_def isASCII_def)
  have l: "toLowerCase id (lit ''jane@x.com'') = lit ''jane@x.com''"
    by (simp add: toLowerCase_def lit_def isASCII_def asciiLower_def)
  have 4: "length (toLowerCase id (lit ''jane@x.com'')) \<le> 100 \<and>
           emailRegex_test (toLowerCase id (lit ''jane@x.com''))"
    unfolding l using regex_jane by (simp add: lit_def)
  have 5: "\<exists>c \<in> set (lit ''Jane Doe''). \<not> isWhiteSpace c"
    by (simp add: lit_def isWhiteSpace_def)
  have 6: "\<exists>c \<in> set (lit ''Hi there''). \<not> isWhiteSpace c"
    by (simp add: lit_def isWhiteSpace_def)
  note t = C1_sanitized_fields [OF validation_example_body 2, of id, unfolded submission.select_convs]
  from t have a: "length (fullname (sanitizedData id ?raw)) \<le> 100"
    by (rule conjunct1)
  from t 3 have b: "emailRegex_test (email (sanitizedData id ?raw))"
    by blast
  from t 5 have c: "fullname (sanitizedData id ?raw) \<noteq> []" by blast
  from t 6 have d: "message (sanitizedData id ?raw) \<noteq> []" by blast
  show ?thesis
    using validation_example_body 2 3 4 5 6 a b c d by blast
qed

text \<open>
  C2, as stated, fails: the cut at 100 can leave white space at the end, which a second
  \<open>trim\<close> removes. The name is ninety-nine \<open>a\<close>, a space and a \<open>b\<close>.
\<close>

theorem C2_counterexample:
  "sanitizedData id (sanitizedData id
     \<lparr>fullname = trailing_space_name, email = lit ''a@b.c'', message = lit ''hi''\<rparr>) \<noteq>
   sanitizedData id
     \<lparr>fullname = trailing_space_name, email = lit ''a@b.c'', message = lit ''hi''\<rparr>"
proof -
  let ?x = "replicate 99 0x61 @ [0x20 :: 16 word]"
  have "isWhiteSpace (last ?x)" by (simp add: isWhiteSpace_def)
  then have n: "trim ?x \<noteq> ?x" by (simp add: trim_eq_self_iff)
  have "length (trim ?x) \<le> 100" using length_trim_le [of ?x] by simp
  then have "substring0 100 (trim ?x) = trim ?x" by (simp add: substring0_def)
  with n have "substring0 100 (trim ?x) \<noteq> ?x" by simp
  then have "fullname (sanitizedData id (sanitizedData id
     \<lparr>fullname = trailing_space_name, email = lit ''a@b.c'', message = lit ''hi''\<rparr>)) \<noteq>
   fullname (sanitizedData id
     \<lparr>fullname = trailing_space_name, email = lit ''a@b.c'', message = lit ''hi''\<rparr>)"
    by (simp add: sanitizedData_def sanitized_trailing_space_name)
  then show ?thesis by metis
qed

text \<open>
  C2, amended. Sanitizing twice gives what sanitizing once gives, for every submission
  whose once-sanitized name, email and message do not end in white space, and whose email
  is ASCII or, once sanitized, does not start with white space and is left unchanged by
  the runtime's lower-casing.
\<close>

theorem C2_sanitize_idempotent:
  assumes "fullname (sanitizedData U b) = [] \<or> \<not> isWhiteSpace (last (fullname (sanitizedData U b)))"
    and "email (sanitizedData U b) = [] \<or> \<not> isWhiteSpace (last (email (sanitizedData U b)))"
    and "message (sanitizedData U b) = [] \<or> \<not> isWhiteSpace (last (message (sanitizedData U b)))"
    and "list_all isASCII (email b) \<or>
         (\<not> isWhiteSpace (hd (email (sanitizedData U b))) \<and>
          toLowerCase U (email (sanitizedData U b)) = email (sanitizedData U b))"
  shows "sanitizedData U (sanitizedData U b) = sanitizedData U b"
proof -
  have f: "substring0 100 (trim (fullname (sanitizedData U b))) = fullname (sanitizedData U b)"
    using assms(1) sanitize_field_idem [of 100 "fullname b"] by (simp add: sanitizedData_def)
  have m: "substring0 1000 (trim (message (sanitizedData U b))) = message (sanitizedData U b)"
    using assms(3) sanitize_field_idem [of 1000 "message b"] by (simp add: sanitizedData_def)
  have e: "substring0 100 (toLowerCase U (trim (email (sanitizedData U b)))) =
           email (sanitizedData U b)"
  proof (cases "list_all isASCII (email b)")
    case True
    then show ?thesis
      using assms(2) sanitize_email_ascii_idem [of "email b" U] by (simp add: sanitizedData_def)
  next
    case False
    then show ?thesis
      using assms(2,4) sanitize_email_fixed_idem [of U "email b"] by (simp add: sanitizedData_def)
  qed
  show ?thesis
    using f m e by (simp add: sanitizedData_def [of U "sanitizedData U b"])
qed

theorem C2_sanitize_idempotent_witness:
  "\<not> isWhiteSpace (last (lit ''Jane Doe'')) \<and> \<not> isWhiteSpace (last (lit ''user@example.com'')) \<and>
   \<not> isWhiteSpace (last (lit ''Hi there'')) \<and> list_all isASCII (lit ''User@Example.COM'') \<and>
   sanitizedData id \<lparr>fullname = lit '' Jane Doe '', email = lit ''User@Example.COM'',
     message = lit ''Hi there''\<rparr> =
     \<lparr>fullname = lit ''Jane Doe'', email = lit ''user@example.com'', message = lit ''Hi there''\<rparr> \<and>
   sanitizedData id (sanitizedData id \<lparr>fullname = lit '' Jane Doe '', email = lit ''User@Example.COM'',
     message = lit ''Hi there''\<rparr>) =
     \<lparr>fullname = lit ''Jane Doe'', email = lit ''user@example.com'', message = lit ''Hi there''\<rparr>"
proof -
  let ?b = "\<lparr>fullname = lit '' Jane Doe '', email = lit ''User@Example.COM'',
     message = lit ''Hi there''\<rparr>"
  have s: "sanitizedData id ?b =
     \<lparr>fullname = lit ''Jane Doe'', email = lit ''user@example.com'', message = lit ''Hi there''\<rparr>"
    by (simp add: sanitizedData_def substring0_def toLowerCase_def trim_def lit_def isWhiteSpace_def
      isASCII_def asciiLower_def)
  have 1: "\<not> isWhiteSpace (last (lit ''Jane Doe''))" by (simp add: lit_def isWhiteSpace_def)
  have 2: "\<not> isWhiteSpace (last (lit ''user@example.com''))" by (simp add: lit_def isWhiteSpace_def)
  have 3: "\<not> isWhiteSpace (last (lit ''Hi there''))" by (simp add: lit_def isWhiteSpace_def)
  have 4: "list_all isASCII (lit ''User@Example.COM'')" by (simp add: lit_def isASCII_def)
  have "sanitizedData id (sanitizedData id ?b) = sanitizedData id ?b"
    by (rule C2_sanitize_idempotent) (simp_all only: s submission.select_convs 1 2 3 4 simp_thms)
  then show ?thesis using s 1 2 3 4 by simp
qed


text \<open>
  C6, as stated, fails: \<open>trim\<close> runs before the cut, so a message of 2000 units that
  starts with a space is forwarded as the first 1000 units of what follows the space, not
  as its own first 1000 units.
\<close>

theorem C6_counterexample:
  "length padded_message = 2000 \<and>
   validation example_env
     (Some \<lparr>fullname = Str (lit ''Jane Doe''), email = Str (lit ''jane@x.com''),
      message = Str padded_message\<rparr>) =
     Inr \<lparr>fullname = Str (lit ''Jane Doe''), email = Str (lit ''jane@x.com''),
      message = Str padded_message\<rparr> \<and>
   message (sanitizedData id
     \<lparr>fullname = lit ''Jane Doe'', email = lit ''jane@x.com'', message = padded_message\<rparr>) =
     replicate 1000 0x61 \<and>
   take 1000 padded_message = 0x20 # replicate 999 0x61 \<and>
   message (sanitizedData id
     \<lparr>fullname = lit ''Jane Doe'', email = lit ''jane@x.com'', message = padded_message\<rparr>) \<noteq>
     take 1000 padded_message"
proof -
  have 1: "length padded_message = 2000" by (simp add: padded_message_def)
  have 2: "validation example_env
     (Some \<lparr>fullname = Str (lit ''Jane Doe''), email = Str (lit ''jane@x.com''),
      message = Str padded_message\<rparr>) =
     Inr \<lparr>fullname = Str (lit ''Jane Doe''), email = Str (lit ''jane@x.com''),
      message = Str padded_message\<rparr>"
    using missingVars_example_env regex_jane
    by (simp add: validation_Inr_iff padded_message_def)
  have 3: "message (sanitizedData id
     \<lparr>fullname = lit ''Jane Doe'', email = lit ''jane@x.com'', message = padded_message\<rparr>) =
     replicate 1000 0x61"
    by (simp add: sanitizedData_def substring0_def trim_padded_message)
  have 4: "take 1000 padded_message = 0x20 # replicate 999 0x61"
    by (simp add: padded_message_def)
  have "hd (replicate 1000 (0x61 :: 16 word)) \<noteq> hd (0x20 # replicate 999 0x61)" by simp
  then have 5: "replicate 1000 (0x61 :: 16 word) \<noteq> 0x20 # replicate 999 0x61" by metis
  show ?thesis using 1 2 3 4 5 by simp
qed

text \<open>
  C6, amended. For every submission that passed validation, is made of strings and finds
  \<open>verify()\<close> succeeding, the message handed to \<open>sendMail\<close> is composed from
  exactly the first 1000 units of the trimmed message and the first 100 units of the
  trimmed name; a message of 2000 units (a name of 150 units) with no white space at its
  ends is therefore forwarded as exactly its first 1000 (100) units. No error is raised
  for the cut and the response does not mention it: when \<open>sendMail\<close> succeeds the
  response is the usual success response.
\<close>

theorem C6_silent_truncation:
  assumes "validation env (Some body) = Inr body" and "string_fields body = Some raw"
    and "verify transporter = None"
  shows "snd (contact_handler U env transporter clk (Some body)) =
           [Verify, SendMail (mailOptions env clk (sanitizedData U raw))] \<and>
         message (sanitizedData U raw) = take 1000 (trim (message raw)) \<and>
         fullname (sanitizedData U raw) = take 100 (trim (fullname raw)) \<and>
         (length (message raw) = 2000 \<and> trim (message raw) = message raw \<longrightarrow>
            message (sanitizedData U raw) = take 1000 (message raw) \<and>
            length (message (sanitizedData U raw)) = 1000) \<and>
         (length (fullname raw) = 150 \<and> trim (fullname raw) = fullname raw \<longrightarrow>
            fullname (sanitizedData U raw) = take 100 (fullname raw) \<and>
            length (fullname (sanitizedData U raw)) = 100) \<and>
         (\<forall>info. sendMail transporter (mailOptions env clk (sanitizedData U raw)) = Inr info \<longrightarrow>
            fst (contact_handler U env transporter clk (Some body)) =
              Response 200 (Success (lit ''Your message has been sent successfully!'')))"
proof -
  have t: "snd (contact_handler U env transporter clk (Some body)) =
           [Verify, SendMail (mailOptions env clk (sanitizedData U raw))]"
    using assms by (simp add: contact_handler_def Let_def split: sum.splits)
  have m: "message (sanitizedData U raw) = take 1000 (trim (message raw))"
    and f: "fullname (sanitizedData U raw) = take 100 (trim (fullname raw))"
    by (simp_all add: sanitizedData_def substring0_def)
  have r: "\<forall>info. sendMail transporter (mailOptions env clk (sanitizedData U raw)) = Inr info \<longrightarrow>
            fst (contact_handler U env transporter clk (Some body)) =
              Response 200 (Success (lit ''Your message has been sent successfully!''))"
    using assms by (simp add: contact_handler_def Let_def)
  have m2: "length (message raw) = 2000 \<and> trim (message raw) = message raw \<longrightarrow>
            message (sanitizedData U raw) = take 1000 (message raw) \<and>
            length (message (sanitizedData U raw)) = 1000"
    by (simp add: m)
  have f2: "length (fullname raw) = 150 \<and> trim (fullname raw) = fullname raw \<longrightarrow>
            fullname (sanitizedData U raw) = take 100 (fullname raw) \<and>
            length (fullname (sanitizedData U raw)) = 100"
    by (simp add: f)
  show ?thesis using t m f m2 f2 r by blast
qed


theorem C6_silent_truncation_witness:
  "validation example_env (Some long_body) = Inr long_body \<and>
   string_fields long_body =
     Some \<lparr>fullname = replicate 150 0x61, email = lit ''jane@x.com'',
           message = replicate 2000 0x61\<rparr> \<and>
   verify transport_ok = None \<and>
   length (replicate 2000 (0x61 :: 16 word)) = 2000 \<and>
   trim (replicate 2000 0x61) = replicate 2000 0x61 \<and>
   length (replicate 150 (0x61 :: 16 word)) = 150 \<and>
   trim (replicate 150 0x61) = replicate 150 0x61 \<and>
   message (sanitizedData id
     \<lparr>fullname = replicate 150 0x61, email = lit ''jane@x.com'',
      message = replicate 2000 0x61\<rparr>) = replicate 1000 0x61 \<and>
   fullname (sanitizedData id
     \<lparr>fullname = replicate 150 0x61, email = lit ''jane@x.com'',
      message = replicate 2000 0x61\<rparr>) = replicate 100 0x61 \<and>
   fst (contact_handler id example_env transport_ok example_clock (Some long_body)) =
     Response 200 (Success (lit ''Your message has been sent successfully!''))"
proof -
  let ?raw = "\<lparr>fullname = replicate 150 0x61, email = lit ''jane@x.com'',
           message = replicate 2000 (0x61 :: 16 word)\<rparr>"
  have 1: "validation example_env (Some long_body) = Inr long_body"
    using missingVars_example_env regex_jane by (simp add: validation_Inr_iff long_body_def)
  have 2: "string_fields long_body = Some ?raw" by (simp add: long_body_def)
  have 3: "verify transport_ok = None" by (simp add: transport_ok_def)
  have 4: "sendMail transport_ok (mailOptions example_env example_clock (sanitizedData id ?raw)) =
           Inr (lit ''<id@x.com>'')"
    by (simp add: transport_ok_def)
  note t = C6_silent_truncation [OF 1 2 3, of id example_clock, unfolded submission.select_convs]
  from t have m: "message (sanitizedData id ?raw) = take 1000 (trim (replicate 2000 0x61))"
    by blast
  from t have f: "fullname (sanitizedData id ?raw) = take 100 (trim (replicate 150 0x61))"
    by blast
  from t 4 have r: "fst (contact_handler id example_env transport_ok example_clock (Some long_body)) =
     Response 200 (Success (lit ''Your message has been sent successfully!''))"
    by blast
  show ?thesis
    using 1 2 3 m f r by (simp add: trim_replicate_a)
qed

text \<open>
  C8, as stated, fails: both bodies embed the date and time at which the message is
  composed, so composing twice from the same sanitized submission and configuration, one
  second apart, gives two different messages.
\<close>

theorem C8_counterexample:
  \<open>mailOptions example_env example_clock
     \<lparr>fullname = lit ''Jane Doe'', email = lit ''jane@x.com'', message = lit ''Hi there''\<rparr> \<noteq>
   mailOptions example_env later_clock
     \<lparr>fullname = lit ''Jane Doe'', email = lit ''jane@x.com'', message = lit ''Hi there''\<rparr>\<close>
proof -
  have "textDate example_clock \<noteq> textDate later_clock"
    using lit_date_neq by (simp add: example_clock_def later_clock_def)
  then have "mail_text (mailOptions example_env example_clock
     \<lparr>fullname = lit ''Jane Doe'', email = lit ''jane@x.com'', message = lit ''Hi there''\<rparr>) \<noteq>
   mail_text (mailOptions example_env later_clock
     \<lparr>fullname = lit ''Jane Doe'', email = lit ''jane@x.com'', message = lit ''Hi there''\<rparr>)"
    by (simp add: mailOptions_def text_body_def)
  then show ?thesis by metis
qed

text \<open>
  C8, amended. \<open>from\<close>, \<open>to\<close> and \<open>subject\<close> are determined by the sanitized
  submission and the configuration alone: the subject is "New Contact - " followed by the
  sanitized name, \<open>to\<close> is \<open>EMAIL_USER\<close>, and \<open>from\<close> is the site name and
  \<open>EMAIL_FROM\<close> in the form \<open>"SITE_NAME Contact Form" <EMAIL_FROM>\<close>. The HTML and
  text bodies depend on the time of composition as well: two compositions from the same
  submission and configuration have the same HTML (text) body exactly when their rendered
  dates are the same.
\<close>

theorem C8_composition:
  \<open>mail_from (mailOptions env clk sd) =
     lit ''"'' @ envText env ''SITE_NAME'' @ lit '' Contact Form" <'' @
       envText env ''EMAIL_FROM'' @ lit ''>'' \<and>
   mail_to (mailOptions env clk sd) = env ''EMAIL_USER'' \<and>
   mail_subject (mailOptions env clk sd) = lit ''New Contact - '' @ fullname sd \<and>
   mail_from (mailOptions env clk sd) = mail_from (mailOptions env clk' sd) \<and>
   mail_to (mailOptions env clk sd) = mail_to (mailOptions env clk' sd) \<and>
   mail_subject (mailOptions env clk sd) = mail_subject (mailOptions env clk' sd) \<and>
   (mail_html (mailOptions env clk sd) = mail_html (mailOptions env clk' sd)
      \<longleftrightarrow> htmlDate clk = htmlDate clk') \<and>
   (mail_text (mailOptions env clk sd) = mail_text (mailOptions env clk' sd)
      \<longleftrightarrow> textDate clk = textDate clk')\<close>
proof -
  have h: "mail_html (mailOptions env clk sd) = mail_html (mailOptions env clk' sd)
      \<longleftrightarrow> htmlDate clk = htmlDate clk'"
    by (simp add: mailOptions_def html_body_def)
  have t: "mail_text (mailOptions env clk sd) = mail_text (mailOptions env clk' sd)
      \<longleftrightarrow> textDate clk = textDate clk'"
    by (simp add: mailOptions_def text_body_def)
  show ?thesis using h t by (simp add: mailOptions_def)
qed

theorem C8_composition_witness:
  \<open>mail_to (mailOptions example_env example_clock
     \<lparr>fullname = lit ''Jane Doe'', email = lit ''jane@x.com'', message = lit ''Hi there''\<rparr>) =
     Some (lit ''your-email@gmail.com'') \<and>
   mail_subject (mailOptions example_env example_clock
     \<lparr>fullname = lit ''Jane Doe'', email = lit ''jane@x.com'', message = lit ''Hi there''\<rparr>) =
     lit ''New Contact - '' @ lit ''Jane Doe'' \<and>
   mail_html (mailOptions example_env example_clock
     \<lparr>fullname = lit ''Jane Doe'', email = lit ''jane@x.com'', message = lit ''Hi there''\<rparr>) =
   mail_html (mailOptions example_env later_clock
     \<lparr>fullname = lit ''Jane Doe'', email = lit ''jane@x.com'', message = lit ''Hi there''\<rparr>)\<close>
proof -
  have d: "htmlDate example_clock = htmlDate later_clock" by (simp add: later_clock_def)
  have e: "example_env ''EMAIL_USER'' = Some (lit ''your-email@gmail.com'')"
    by (simp add: example_env_def)
  note t = C8_composition [of example_env example_clock
     "\<lparr>fullname = lit ''Jane Doe'', email = lit ''jane@x.com'', message = lit ''Hi there''\<rparr>"
     later_clock, unfolded submission.select_convs]
  show ?thesis using t d e by simp
qed


end
